theory Spec2Isabelle
  imports Complex_Main
begin

section \<open>JavaScript values used by the relay\<close>

text \<open>
  The server (\<open>src/index.ts\<close>) is an Express application. Its strings are modelled as
  \<open>string\<close>; the literals it compares against are ASCII. The empty string is the
  falsy string of JavaScript.
\<close>

definition truthy_str :: "string \<Rightarrow> bool" where
  "truthy_str s = (s \<noteq> [])"

text \<open>\<open>String.prototype.startsWith\<close>.\<close>

definition startsWith :: "string \<Rightarrow> string \<Rightarrow> bool" where
  "startsWith s p = (take (length p) s = p)"

text \<open>
  \<open>String.prototype.toLowerCase\<close> on the ASCII letters. No character outside ASCII
  lower-cases to one of the letters of the extensions the server compares with, so the
  other characters are left as they are.
\<close>

definition toLowerChar :: "char \<Rightarrow> char" where
  "toLowerChar c =
     (if 65 \<le> (of_char c :: nat) \<and> (of_char c :: nat) \<le> 90
      then char_of ((of_char c :: nat) + 32) else c)"

definition toLowerCase :: "string \<Rightarrow> string" where
  "toLowerCase s = map toLowerChar s"

text \<open>
  JSON values: the bodies the upstream service returns and the bodies the server sends.
  A JSON number is a finite double, hence a rational.
\<close>

datatype json =
    JNull
  | JBool bool
  | JNum rat
  | JStr string
  | JArr "json list"
  | JObj "(string \<times> json) list"

text \<open>Truthiness of a parsed JSON value, as \<open>||\<close> tests it.\<close>

fun truthy :: "json \<Rightarrow> bool" where
  "truthy JNull = False"
| "truthy (JBool b) = b"
| "truthy (JNum n) = (n \<noteq> 0)"
| "truthy (JStr s) = (s \<noteq> [])"
| "truthy (JArr xs) = True"
| "truthy (JObj kvs) = True"

text \<open>
  \<open>data?.error\<close>: the property of a parsed JSON value, \<open>None\<close> for
  \<open>undefined\<close> (a value that is no object, or an object without the property).
\<close>

fun optional_prop :: "json \<Rightarrow> string \<Rightarrow> json option" where
  "optional_prop (JObj kvs) k = map_of kvs k"
| "optional_prop v k = None"

text \<open>
  A property read on an object literal, \<open>obj[key]\<close>. The object's own properties
  come first; a key it does not own is looked up on \<open>Object.prototype\<close>, whose
  members (functions, and the prototype object itself for \<open>__proto__\<close>) are all
  truthy. Only a key found in neither place reads as \<open>undefined\<close>.
\<close>

datatype js_value =
    Undefined
  | Str string
  | Inherited string

definition object_prototype_keys :: "string list" where
  "object_prototype_keys =
     [''constructor'', ''__defineGetter__'', ''__defineSetter__'', ''hasOwnProperty'',
      ''__lookupGetter__'', ''__lookupSetter__'', ''isPrototypeOf'',
      ''propertyIsEnumerable'', ''toString'', ''valueOf'', ''__proto__'',
      ''toLocaleString'']"

definition js_get :: "(string \<times> string) list \<Rightarrow> string \<Rightarrow> js_value" where
  "js_get obj k =
     (case map_of obj k of
        Some v \<Rightarrow> Str v
      | None \<Rightarrow> if k \<in> set object_prototype_keys then Inherited k else Undefined)"

fun truthy_value :: "js_value \<Rightarrow> bool" where
  "truthy_value Undefined = False"
| "truthy_value (Str s) = (s \<noteq> [])"
| "truthy_value (Inherited k) = True"

text \<open>\<open>Object.keys\<close> of an object literal whose keys are not array indices: insertion order.\<close>

definition object_keys :: "(string \<times> string) list \<Rightarrow> string list" where
  "object_keys obj = map fst obj"

section \<open>Upload intake\<close>

text \<open>The fields of \<open>Express.Multer.File\<close> the server reads.\<close>

record multer_file =
  fieldname :: string
  originalname :: string
  mimetype :: string
  filesize :: nat
  path :: string

text \<open>
  What the filter hands to its callback: \<open>cb(null, true)\<close> or \<open>cb(new Error(msg))\<close>.
  Multer's own errors carry a code next to the message.
\<close>

datatype upload_error =
    PlainError string
  | MulterError string string

datatype filter_verdict =
    Accept
  | Reject upload_error

text \<open>
  The regular expression \<open>/\.(mp3|wav|ogg|m4a|aac)$/i\<close>. \<open>canonicalize\<close> is the
  case folding of a pattern with the \<open>i\<close> flag (upper-casing; a character outside
  ASCII never folds to an ASCII one). \<open>regex_at\<close> tries the pattern at the start of
  the remaining input: a dot, one alternative, and then the end of the input.
  \<open>regex_search\<close> is \<open>String.prototype.match\<close>: the first position, from the left,
  where the pattern matches.
\<close>

definition canonicalize :: "char \<Rightarrow> char" where
  "canonicalize c =
     (if 97 \<le> (of_char c :: nat) \<and> (of_char c :: nat) \<le> 122
      then char_of ((of_char c :: nat) - 32) else c)"

definition audio_alternatives :: "string list" where
  "audio_alternatives = [''mp3'', ''wav'', ''ogg'', ''m4a'', ''aac'']"

fun regex_at :: "string \<Rightarrow> bool" where
  "regex_at [] = False"
| "regex_at (c # rest) =
     (c = CHR ''.'' \<and>
      list_ex (\<lambda>alt. map canonicalize rest = map canonicalize alt) audio_alternatives)"

fun regex_search :: "string \<Rightarrow> bool" where
  "regex_search [] = regex_at []"
| "regex_search (c # rest) = (regex_at (c # rest) \<or> regex_search rest)"

text \<open>The \<open>fileFilter\<close> option of the multer instance.\<close>

definition fileFilter :: "multer_file \<Rightarrow> filter_verdict" where
  "fileFilter file =
     (if (truthy_str (mimetype file) \<and> startsWith (mimetype file) ''audio/'')
         \<or> fieldname file = ''audio''
         \<or> (truthy_str (originalname file) \<and> regex_search (originalname file))
      then Accept
      else Reject (PlainError ''Only audio files are allowed''))"

text \<open>
  \<open>upload.single('audio')\<close> with the \<open>limits\<close> of the multer instance, for a request
  that carries one file part. Multer skips a part that has no filename (the request then
  has no file), accepts a file only in the field it was bound to (any other field is
  \<open>LIMIT_UNEXPECTED_FILE\<close>), then asks the filter, then enforces the size limit while it
  stores the file: the limit is hit as soon as the stored bytes reach it. The result is
  the error handed to the error-handling middleware, or \<open>req.file\<close>.
\<close>

definition fileSize_limit :: nat where
  "fileSize_limit = 100 * 1024 * 1024"

definition upload_single ::
  "string \<Rightarrow> multer_file \<Rightarrow> upload_error + multer_file option" where
  "upload_single field part =
     (if originalname part = [] then Inr None
      else if fieldname part \<noteq> field
      then Inl (MulterError ''LIMIT_UNEXPECTED_FILE'' ''Unexpected field'')
      else case fileFilter part of
             Reject e \<Rightarrow> Inl e
           | Accept \<Rightarrow>
               if fileSize_limit \<le> filesize part
               then Inl (MulterError ''LIMIT_FILE_SIZE'' ''File too large'')
               else Inr (Some part))"

section \<open>Content-type resolution\<close>

text \<open>
  \<open>path.extname\<close> of Node.js (the POSIX variant), which \<open>getAudioMimeType\<close> calls.
  The library scans the path from its last character to its first, remembering where
  the last dot of the last path component is (\<open>startDot\<close>), where that component
  starts and ends, and whether anything but dots precedes the dot (\<open>preDotState\<close>).
  The scan stops at the slash in front of the last component. A position that is not
  set yet is \<open>-1\<close>.
\<close>

record extname_state =
  startDot :: int
  startPart :: int
  end_pos :: int
  matchedSlash :: bool
  preDotState :: int

definition extname_init :: extname_state where
  "extname_init =
     \<lparr>startDot = -1, startPart = 0, end_pos = -1, matchedSlash = True, preDotState = 0\<rparr>"

text \<open>One character of the scan, at index \<open>i\<close>, for a character that is no slash.\<close>

definition extname_char :: "char \<Rightarrow> nat \<Rightarrow> extname_state \<Rightarrow> extname_state" where
  "extname_char ch i st =
     (let st1 = (if end_pos st = -1
                 then st\<lparr>matchedSlash := False, end_pos := int i + 1\<rparr> else st)
      in if ch = CHR ''.''
         then (if startDot st1 = -1 then st1\<lparr>startDot := int i\<rparr>
               else if preDotState st1 \<noteq> 1 then st1\<lparr>preDotState := 1\<rparr>
               else st1)
         else if startDot st1 \<noteq> -1 then st1\<lparr>preDotState := -1\<rparr>
         else st1)"

text \<open>The loop \<open>for (i = path.length - 1; i >= 0; --i)\<close>; \<open>n\<close> is \<open>i + 1\<close>.\<close>

fun extname_loop :: "string \<Rightarrow> nat \<Rightarrow> extname_state \<Rightarrow> extname_state" where
  "extname_loop p 0 st = st"
| "extname_loop p (Suc i) st =
     (if p ! i = CHR ''/''
      then (if \<not> matchedSlash st then st\<lparr>startPart := int i + 1\<rparr>
            else extname_loop p i st)
      else extname_loop p i (extname_char (p ! i) i st))"

definition extname :: "string \<Rightarrow> string" where
  "extname p =
     (let st = extname_loop p (length p) extname_init
      in if startDot st = -1 \<or> end_pos st = -1 \<or> preDotState st = 0
            \<or> (preDotState st = 1 \<and> startDot st = end_pos st - 1
                \<and> startDot st = startPart st + 1)
         then []
         else drop (nat (startDot st)) (take (nat (end_pos st)) p))"

text \<open>\<open>getAudioMimeType\<close>: the declared type unless it is missing or generic.\<close>

definition getAudioMimeType :: "multer_file \<Rightarrow> string" where
  "getAudioMimeType file =
     (if truthy_str (mimetype file) \<and> mimetype file \<noteq> ''application/octet-stream''
      then mimetype file
      else let ext = toLowerCase (extname (originalname file))
           in if ext = ''.mp3'' then ''audio/mpeg''
              else if ext = ''.wav'' then ''audio/wav''
              else if ext = ''.ogg'' then ''audio/ogg''
              else if ext = ''.m4a'' then ''audio/mp4''
              else if ext = ''.flac'' then ''audio/flac''
              else ''audio/wav'')"

section \<open>Model resolution\<close>

definition HF_MODELS :: "(string \<times> string) list" where
  "HF_MODELS =
     [(''whisper-large'', ''openai/whisper-large-v3''),
      (''whisper-large-turbo'', ''openai/whisper-large-v3-turbo'')]"

text \<open>
  \<open>const modelKey = (req.query.model as string) || 'whisper-large'\<close>. The query
  parameter is \<open>None\<close> when the request has none.
\<close>

definition modelKey_of :: "string option \<Rightarrow> string" where
  "modelKey_of q =
     (case q of
        None \<Rightarrow> ''whisper-large''
      | Some s \<Rightarrow> if truthy_str s then s else ''whisper-large'')"

text \<open>\<open>const modelName = HF_MODELS[modelKey] || HF_MODELS['whisper-large']\<close>.\<close>

definition modelName_of :: "string option \<Rightarrow> js_value" where
  "modelName_of q =
     (let v = js_get HF_MODELS (modelKey_of q)
      in if truthy_value v then v else js_get HF_MODELS ''whisper-large'')"

section \<open>Model listing\<close>

definition descriptions :: "(string \<times> string) list" where
  "descriptions =
     [(''whisper-large'', ''Best accuracy, standard speed (1.5GB)''),
      (''whisper-large-turbo'', ''Best accuracy, faster and cheaper (newest, 1.5GB)'')]"

definition getModelDescription :: "string \<Rightarrow> js_value" where
  "getModelDescription modelKey =
     (let v = js_get descriptions modelKey
      in if truthy_value v then v else Str ''Unknown model'')"

record model_info =
  key :: string
  name :: js_value
  description :: js_value

text \<open>The body of \<open>GET /api/models\<close>: one entry per key of \<open>HF_MODELS\<close>.\<close>

definition listModels :: "model_info list" where
  "listModels =
     map (\<lambda>k. \<lparr>key = k, name = js_get HF_MODELS k, description = getModelDescription k\<rparr>)
       (object_keys HF_MODELS)"

section \<open>The transcription handler\<close>

subsection \<open>Errors, the file system and the upstream service\<close>

text \<open>
  A thrown error, with the three properties the \<open>catch\<close> block reads:
  \<open>error.response\<close> (the upstream's status and parsed body, set by axios when the
  upstream answered with an error status), \<open>error.code\<close> and \<open>error.message\<close>.
\<close>

record js_error =
  response :: "(nat \<times> json) option"
  code :: "string option"
  message :: string

text \<open>
  The file system the handler touches: the bytes stored under each path, and the faults
  an operation on a path meets (a permission error, an I/O error). A path with no bytes
  is a file that does not exist.
\<close>

record fs_world =
  contents :: "string \<Rightarrow> nat list option"
  read_fault :: "string \<Rightarrow> js_error option"
  unlink_fault :: "string \<Rightarrow> js_error option"

text \<open>
  The error Node throws for a missing file; its message names the system call and puts
  the path between single quotes (character \<open>0x27\<close>).
\<close>

definition enoent :: "string \<Rightarrow> string \<Rightarrow> js_error" where
  "enoent syscall p =
     \<lparr>response = None, code = Some ''ENOENT'',
      message = ''ENOENT: no such file or directory, '' @ syscall @ '' ''
                  @ [CHR 0x27] @ p @ [CHR 0x27]\<rparr>"

text \<open>\<open>fs.readFileSync\<close>: the bytes, or the error it throws.\<close>

definition readFileSync :: "fs_world \<Rightarrow> string \<Rightarrow> js_error + nat list" where
  "readFileSync w p =
     (case read_fault w p of
        Some e \<Rightarrow> Inl e
      | None \<Rightarrow> (case contents w p of
                   None \<Rightarrow> Inl (enoent ''open'' p)
                 | Some bytes \<Rightarrow> Inr bytes))"

text \<open>\<open>fs.unlinkSync\<close>: the file system without the file, or the error it throws.\<close>

definition unlinkSync :: "fs_world \<Rightarrow> string \<Rightarrow> js_error + fs_world" where
  "unlinkSync w p =
     (case unlink_fault w p of
        Some e \<Rightarrow> Inl e
      | None \<Rightarrow> (case contents w p of
                   None \<Rightarrow> Inl (enoent ''unlink'' p)
                 | Some bytes \<Rightarrow> Inr (w\<lparr>contents := (contents w)(p := None)\<rparr>)))"

text \<open>
  The one outbound call, \<open>axios.post(url, audioBuffer, config)\<close>. The model name is
  kept as the value the template string is given.
\<close>

record outbound_request =
  url_model :: js_value
  payload :: "nat list"
  authorization :: string
  content_type :: string
  accept :: string
  maxBodyLength :: nat
  timeout :: nat

text \<open>
  What awaiting the call gives: the parsed body of a 2xx answer, or a thrown error
  (with \<open>response\<close> for an error status, with code \<open>ECONNABORTED\<close> and no response
  when the timeout passed).
\<close>

datatype axios_outcome =
    Resolved json
  | Rejected js_error

text \<open>
  What the process is started with and what it talks to: the token of the environment,
  the upstream service, and the clock read for \<open>processedAt\<close>.
\<close>

record env =
  HF_API_TOKEN :: "string option"
  upstream :: "outbound_request \<Rightarrow> axios_outcome"
  now :: string

definition token_configured :: "env \<Rightarrow> bool" where
  "token_configured e =
     (case HF_API_TOKEN e of None \<Rightarrow> False | Some t \<Rightarrow> truthy_str t)"

subsection \<open>Replies\<close>

text \<open>The interface \<open>ErrorResponse\<close> of \<open>src/types.ts\<close>.\<close>

record error_body =
  error :: string
  details :: json
  status :: "nat option"
  retryAfter :: "nat option"

record transcription_metadata =
  model :: js_value
  originalFilename :: string
  fileSize :: nat
  metadata_mimetype :: string
  processedAt :: string

record success_body =
  success :: bool
  transcription :: json
  metadata :: transcription_metadata

datatype reply_body =
    ErrorJson error_body
  | SuccessJson success_body

record http_reply =
  http_status :: nat
  body :: reply_body

definition error_reply :: "nat \<Rightarrow> string \<Rightarrow> json \<Rightarrow> nat option \<Rightarrow> nat option \<Rightarrow> http_reply" where
  "error_reply st err det upstream_status retry =
     \<lparr>http_status = st,
      body = ErrorJson \<lparr>error = err, details = det, status = upstream_status,
                        retryAfter = retry\<rparr>\<rparr>"

subsection \<open>The \<open>catch\<close> block\<close>

text \<open>The reply chosen from the caught error (\<open>if (error.response) ... else if ... else\<close>).\<close>

definition classify_error :: "js_error \<Rightarrow> http_reply" where
  "classify_error e =
     (case response e of
        Some (st, data) \<Rightarrow>
          if st = 401 then
            error_reply 500 ''Authentication failed''
              (JStr ''Invalid HuggingFace API token'') None None
          else if st = 429 then
            error_reply 429 ''Rate limit exceeded''
              (JStr ''Too many requests to HuggingFace API. Please try again later.'')
              None None
          else if st = 503 then
            error_reply 503 ''Model loading''
              (JStr ''The AI model is currently loading. Please try again in a few moments.'')
              None (Some 20)
          else
            error_reply 500 ''Transcription failed''
              (case optional_prop data ''error'' of
                 Some d \<Rightarrow> if truthy d then d else JStr ''HuggingFace API error''
               | None \<Rightarrow> JStr ''HuggingFace API error'')
              (Some st) None
      | None \<Rightarrow>
          if code e = Some ''ECONNABORTED'' then
            error_reply 408 ''Request timeout''
              (JStr ''Transcription took too long. Please try with a shorter audio file.'')
              None None
          else
            error_reply 500 ''Internal server error'' (JStr (message e)) None None)"

text \<open>
  What a handler run leaves behind: the reply, the file system, and the outbound calls
  it made, in order.
\<close>

record outcome =
  reply :: http_reply
  world :: fs_world
  calls :: "outbound_request list"

text \<open>
  The whole \<open>catch\<close> block: the cleanup (\<open>try { fs.unlinkSync(tempFilePath) } catch
  { log }\<close>), then the reply.
\<close>

definition catch_block ::
  "js_error \<Rightarrow> string \<Rightarrow> fs_world \<Rightarrow> outbound_request list \<Rightarrow> outcome" where
  "catch_block e tempFilePath w made =
     (let w' = (case unlinkSync w tempFilePath of Inl cleanupError \<Rightarrow> w | Inr w1 \<Rightarrow> w1)
      in \<lparr>reply = classify_error e, world = w', calls = made\<rparr>)"

subsection \<open>\<open>POST /api/transcribe\<close>\<close>

record request =
  req_file :: "multer_file option"
  query_model :: "string option"

definition bearer :: "env \<Rightarrow> string" where
  "bearer e = ''Bearer '' @ (case HF_API_TOKEN e of None \<Rightarrow> [] | Some t \<Rightarrow> t)"

definition build_call :: "env \<Rightarrow> multer_file \<Rightarrow> js_value \<Rightarrow> nat list \<Rightarrow> outbound_request" where
  "build_call e f modelName audioBuffer =
     \<lparr>url_model = modelName, payload = audioBuffer, authorization = bearer e,
      content_type = getAudioMimeType f, accept = ''application/json'',
      maxBodyLength = 100 * 1024 * 1024, timeout = 60000\<rparr>"

definition transcribe :: "env \<Rightarrow> request \<Rightarrow> fs_world \<Rightarrow> outcome" where
  "transcribe e req w =
     (case req_file req of
        None \<Rightarrow>
          \<lparr>reply = error_reply 400 ''No audio file uploaded''
                     (JStr ''Please provide an audio file in the request'') None None,
           world = w, calls = []\<rparr>
      | Some f \<Rightarrow>
          if \<not> token_configured e then
            \<lparr>reply = error_reply 500 ''Server configuration error''
                       (JStr ''HuggingFace API token not configured'') None None,
             world = w, calls = []\<rparr>
          else
            (let tempFilePath = path f in
             case readFileSync w tempFilePath of
               Inl err \<Rightarrow> catch_block err tempFilePath w []
             | Inr audioBuffer \<Rightarrow>
                 (let modelName = modelName_of (query_model req);
                      call = build_call e f modelName audioBuffer
                  in case upstream e call of
                       Rejected err \<Rightarrow> catch_block err tempFilePath w [call]
                     | Resolved data \<Rightarrow>
                         (case unlinkSync w tempFilePath of
                            Inl err \<Rightarrow> catch_block err tempFilePath w [call]
                          | Inr w' \<Rightarrow>
                              \<lparr>reply =
                                 \<lparr>http_status = 200,
                                  body = SuccessJson
                                    \<lparr>success = True, transcription = data,
                                     metadata =
                                       \<lparr>model = modelName,
                                        originalFilename = originalname f,
                                        fileSize = filesize f,
                                        metadata_mimetype = mimetype f,
                                        processedAt = now e\<rparr>\<rparr>\<rparr>,
                               world = w', calls = [call]\<rparr>))))"

subsection \<open>The error-handling middleware and the route\<close>

text \<open>
  \<open>app.use((error, req, res, next) => ...)\<close>: where an error of the upload step ends.
\<close>

definition errorMiddleware :: "upload_error \<Rightarrow> http_reply" where
  "errorMiddleware err =
     (case err of
        MulterError c m \<Rightarrow>
          if c = ''LIMIT_FILE_SIZE'' then
            error_reply 413 ''File too large''
              (JStr ''Audio file must be smaller than 100MB'') None None
          else error_reply 500 ''Internal server error'' (JStr m) None None
      | PlainError m \<Rightarrow> error_reply 500 ''Internal server error'' (JStr m) None None)"

text \<open>
  The route \<open>app.post('/api/transcribe', upload.single('audio'), handler)\<close>, for a
  request with at most one file part: the upload step, then the handler, or the
  middleware when the upload step failed. The file system is the one the upload step
  leaves.
\<close>

definition post_transcribe ::
  "env \<Rightarrow> multer_file option \<Rightarrow> string option \<Rightarrow> fs_world \<Rightarrow> outcome" where
  "post_transcribe e part q w =
     (case part of
        None \<Rightarrow> transcribe e \<lparr>req_file = None, query_model = q\<rparr> w
      | Some p \<Rightarrow>
          (case upload_single ''audio'' p of
             Inl err \<Rightarrow> \<lparr>reply = errorMiddleware err, world = w, calls = []\<rparr>
           | Inr f \<Rightarrow> transcribe e \<lparr>req_file = f, query_model = q\<rparr> w))"

section \<open>The specification's table and sample inputs\<close>

text \<open>
  The mapping of extensions to media types as the specification words it
  (\<open>.mp3\<rightarrow>audio/mpeg\<close>, \<open>.wav\<rightarrow>audio/wav\<close>, \<open>.ogg\<rightarrow>audio/ogg\<close>, \<open>.m4a\<rightarrow>audio/mp4\<close>,
  \<open>.flac\<rightarrow>audio/flac\<close>), to compare the \<open>switch\<close> of the source with.
\<close>

definition spec_extension_table :: "(string \<times> string) list" where
  "spec_extension_table =
     [(''.mp3'', ''audio/mpeg''), (''.wav'', ''audio/wav''), (''.ogg'', ''audio/ogg''),
      (''.m4a'', ''audio/mp4''), (''.flac'', ''audio/flac'')]"

text \<open>A reply with a status of the 4xx class.\<close>

definition client_error :: "http_reply \<Rightarrow> bool" where
  "client_error r = (400 \<le> http_status r \<and> http_status r < 500)"

text \<open>
  Sample collaborators: an upstream that answers every call with a transcription, one
  that fails every call with a given error, a process started without a token, a file
  system holding one temporary upload, and two uploaded parts.
\<close>

definition env0 :: env where
  "env0 =
     \<lparr>HF_API_TOKEN = Some ''hf_token'',
      upstream = (\<lambda>c. Resolved (JObj [(''text'', JStr ''hello'')])),
      now = ''2024-01-15T10:30:00.000Z''\<rparr>"

definition rejecting :: "js_error \<Rightarrow> env" where
  "rejecting err =
     \<lparr>HF_API_TOKEN = Some ''hf_token'', upstream = (\<lambda>c. Rejected err),
      now = ''2024-01-15T10:30:00.000Z''\<rparr>"

definition env_no_token :: env where
  "env_no_token =
     \<lparr>HF_API_TOKEN = None,
      upstream = (\<lambda>c. Resolved (JObj [(''text'', JStr ''hello'')])),
      now = ''2024-01-15T10:30:00.000Z''\<rparr>"

definition world0 :: fs_world where
  "world0 =
     \<lparr>contents = (\<lambda>p. if p = ''/tmp/a1'' then Some [82, 73, 70, 70] else None),
      read_fault = (\<lambda>p. None), unlink_fault = (\<lambda>p. None)\<rparr>"

definition file0 :: multer_file where
  "file0 =
     \<lparr>fieldname = ''audio'', originalname = ''Song.MP3'',
      mimetype = ''application/octet-stream'', filesize = 4, path = ''/tmp/a1''\<rparr>"

definition text_part :: multer_file where
  "text_part =
     \<lparr>fieldname = ''document'', originalname = ''notes.txt'',
      mimetype = ''text/plain'', filesize = 12, path = ''/tmp/b2''\<rparr>"

definition wrong_field_audio :: multer_file where
  "wrong_field_audio =
     \<lparr>fieldname = ''file'', originalname = ''a.mp3'',
      mimetype = ''audio/mpeg'', filesize = 12, path = ''/tmp/d4''\<rparr>"

definition audio_field_part :: multer_file where
  "audio_field_part =
     \<lparr>fieldname = ''audio'', originalname = ''notes.txt'',
      mimetype = ''text/plain'', filesize = 12, path = ''/tmp/c3''\<rparr>"

definition timeout_error :: js_error where
  "timeout_error =
     \<lparr>response = None, code = Some ''ECONNABORTED'',
      message = ''timeout of 60000ms exceeded''\<rparr>"

definition loading_error :: js_error where
  "loading_error =
     \<lparr>response = Some (503, JObj [(''error'', JStr ''Model is loading'')]),
      code = Some ''ERR_BAD_RESPONSE'',
      message = ''Request failed with status code 503''\<rparr>"

definition not_found_error :: js_error where
  "not_found_error =
     \<lparr>response = Some (404, JObj [(''error'', JStr ''Model not found'')]),
      code = Some ''ERR_BAD_REQUEST'',
      message = ''Request failed with status code 404''\<rparr>"

section \<open>Properties of content-type resolution\<close>

text \<open>
  The scan on a filename of the everyday shape, a non-empty stem, a dot and a non-empty
  extension without further dots, and no slash anywhere: characters of the extension
  leave the state as the first of them set it, the dot sets \<open>startDot\<close>, and the
  characters of the stem only change \<open>preDotState\<close>. The extension found is the text
  from the last dot on.
\<close>

lemma extname_loop_skip:
  assumes "startDot st = -1" and "end_pos st \<noteq> -1"
    and "\<forall>j. m \<le> j \<and> j < n \<longrightarrow> p ! j \<noteq> CHR ''/'' \<and> p ! j \<noteq> CHR ''.''"
    and "m \<le> n"
  shows "extname_loop p n st = extname_loop p m st"
  using assms
proof (induction n)
  case 0
  then show ?case by simp
next
  case (Suc n)
  show ?case
  proof (cases "m = Suc n")
    case True
    then show ?thesis by simp
  next
    case False
    then have mn: "m \<le> n" using Suc.prems by simp
    have c: "p ! n \<noteq> CHR ''/''" "p ! n \<noteq> CHR ''.''" using Suc.prems mn by auto
    have "extname_char (p ! n) n st = st"
      using c Suc.prems by (simp add: extname_char_def Let_def)
    then have "extname_loop p (Suc n) st = extname_loop p n st" using c by simp
    also have "\<dots> = extname_loop p m st"
      using Suc.IH Suc.prems mn by auto
    finally show ?thesis .
  qed
qed

lemma extname_loop_stem:
  assumes "startDot st \<noteq> -1" and "end_pos st \<noteq> -1"
    and "\<forall>j < Suc n. p ! j \<noteq> CHR ''/''"
  shows "extname_loop p (Suc n) st
           = st\<lparr>preDotState := (if p ! 0 = CHR ''.'' then 1 else -1)\<rparr>"
  using assms
proof (induction n arbitrary: st)
  case 0
  then show ?case by (auto simp add: extname_char_def Let_def)
next
  case (Suc n)
  let ?st' = "extname_char (p ! Suc n) (Suc n) st"
  have ns: "p ! Suc n \<noteq> CHR ''/''" using Suc.prems by simp
  have st': "?st' = st\<lparr>preDotState := preDotState ?st'\<rparr>"
    "startDot ?st' \<noteq> -1" "end_pos ?st' \<noteq> -1"
    using Suc.prems by (auto simp add: extname_char_def Let_def)
  have "extname_loop p (Suc (Suc n)) st = extname_loop p (Suc n) ?st'"
    using ns by simp
  also have "\<dots> = ?st'\<lparr>preDotState := (if p ! 0 = CHR ''.'' then 1 else -1)\<rparr>"
    using Suc.IH [of ?st'] st' Suc.prems by simp
  also have "\<dots> = st\<lparr>preDotState := (if p ! 0 = CHR ''.'' then 1 else -1)\<rparr>"
    using st'(1) by (metis extname_state.update_convs(5) extname_state.surjective)
  finally show ?case .
qed

lemma extname_plain:
  assumes "stem \<noteq> []" and "ext \<noteq> []"
    and "CHR ''/'' \<notin> set stem" and "CHR ''/'' \<notin> set ext" and "CHR ''.'' \<notin> set ext"
  shows "extname (stem @ ''.'' @ ext) = ''.'' @ ext"
proof -
  let ?p = "stem @ ''.'' @ ext"
  let ?k = "length stem"
  let ?L = "length ?p"
  obtain L' where L': "?L = Suc L'" by (cases ?L) auto
  have kL: "?k < L'" using L' assms(2) by (cases ext) auto
  have extc: "\<forall>j. Suc ?k \<le> j \<and> j < ?L \<longrightarrow> ?p ! j \<noteq> CHR ''/'' \<and> ?p ! j \<noteq> CHR ''.''"
  proof (intro allI impI)
    fix j assume j: "Suc ?k \<le> j \<and> j < ?L"
    then have "?p ! j = ext ! (j - Suc ?k)" 
      by (simp add: nth_append)
    moreover have "j - Suc ?k < length ext" using j by auto
    ultimately have "?p ! j \<in> set ext" by (metis nth_mem)
    then show "?p ! j \<noteq> CHR ''/'' \<and> ?p ! j \<noteq> CHR ''.''" using assms by auto
  qed
  have stemc: "\<forall>j < ?k. ?p ! j \<noteq> CHR ''/''"
  proof (intro allI impI)
    fix j assume "j < ?k"
    then have "?p ! j \<in> set stem" by (simp add: nth_append)
    then show "?p ! j \<noteq> CHR ''/''" using assms by auto
  qed
  have dot: "?p ! ?k = CHR ''.''" by (simp add: nth_append)
  define st1 where "st1 = extname_init\<lparr>matchedSlash := False, end_pos := int ?L\<rparr>"
  have last: "?p ! L' \<noteq> CHR ''/''" "?p ! L' \<noteq> CHR ''.''"
    using extc kL L' by auto
  have "extname_loop ?p ?L extname_init = extname_loop ?p L' (extname_char (?p ! L') L' extname_init)"
    using L' last by simp
  also have "extname_char (?p ! L') L' extname_init = st1"
    using last L' by (simp add: extname_char_def extname_init_def st1_def Let_def)
  also have "extname_loop ?p L' st1 = extname_loop ?p (Suc ?k) st1"
    using extc kL L'
    by (intro extname_loop_skip) (auto simp add: st1_def extname_init_def)
  also have "\<dots> = extname_loop ?p ?k (st1\<lparr>startDot := int ?k\<rparr>)"
    using dot by (simp add: extname_char_def Let_def st1_def extname_init_def)
  finally have step: "extname_loop ?p ?L extname_init
                        = extname_loop ?p ?k (st1\<lparr>startDot := int ?k\<rparr>)" .
  obtain k' where k': "?k = Suc k'" using assms(1) by (cases stem) auto
  have "extname_loop ?p ?k (st1\<lparr>startDot := int ?k\<rparr>)
          = (st1\<lparr>startDot := int ?k\<rparr>)\<lparr>preDotState := (if ?p ! 0 = CHR ''.'' then 1 else -1)\<rparr>"
    unfolding k' using stemc k'
    by (intro extname_loop_stem) (auto simp add: st1_def extname_init_def)
  with step have fin: "extname_loop ?p ?L extname_init
      = (st1\<lparr>startDot := int ?k\<rparr>)\<lparr>preDotState := (if ?p ! 0 = CHR ''.'' then 1 else -1)\<rparr>"
    by simp
  have "extname ?p = drop ?k (take ?L ?p)"
    unfolding extname_def fin using kL L'
    by (auto simp add: Let_def st1_def extname_init_def)
  then show ?thesis by simp
qed

lemma getAudioMimeType_plain_name:
  assumes "mimetype f = [] \<or> mimetype f = ''application/octet-stream''"
    and "originalname f = stem @ ''.'' @ ext"
    and "stem \<noteq> []" and "ext \<noteq> []"
    and "CHR ''/'' \<notin> set stem" and "CHR ''/'' \<notin> set ext" and "CHR ''.'' \<notin> set ext"
  shows "getAudioMimeType f =
           (if toLowerCase ext = ''mp3'' then ''audio/mpeg''
            else if toLowerCase ext = ''wav'' then ''audio/wav''
            else if toLowerCase ext = ''ogg'' then ''audio/ogg''
            else if toLowerCase ext = ''m4a'' then ''audio/mp4''
            else if toLowerCase ext = ''flac'' then ''audio/flac''
            else ''audio/wav'')"
proof -
  have "extname (stem @ ''.'' @ ext) = ''.'' @ ext"
    using assms(3-7) by (rule extname_plain)
  then have "extname (originalname f) = ''.'' @ ext"
    using assms(2) by simp
  then have "toLowerCase (extname (originalname f)) = CHR ''.'' # toLowerCase ext"
    by (simp add: toLowerCase_def toLowerChar_def)
  then show ?thesis using assms(1)
    by (auto simp add: getAudioMimeType_def truthy_str_def Let_def)
qed

text \<open>
  C2. \<open>getAudioMimeType\<close> is a function of the declared media type and the filename
  alone. A declared type that is non-empty and not \<open>application/octet-stream\<close> is
  returned unchanged; otherwise the lower-cased extension of the filename is looked up
  in the documented table, and an extension that is not in it (or a missing one) gives
  \<open>audio/wav\<close>.
\<close>

theorem getAudioMimeType_resolution:
  "getAudioMimeType f =
     (if mimetype f \<noteq> [] \<and> mimetype f \<noteq> ''application/octet-stream''
      then mimetype f
      else case map_of spec_extension_table (toLowerCase (extname (originalname f))) of
             Some t \<Rightarrow> t
           | None \<Rightarrow> ''audio/wav'')"
  by (simp add: getAudioMimeType_def truthy_str_def spec_extension_table_def Let_def)

lemma extname_Song_MP3: "toLowerCase (extname ''Song.MP3'') = ''.mp3''"
  by code_simp

theorem getAudioMimeType_resolution_witness:
  "getAudioMimeType \<lparr>fieldname = ''audio'', originalname = ''Song.MP3'',
      mimetype = ''application/octet-stream'', filesize = 3, path = ''/tmp/a1''\<rparr>
   = ''audio/mpeg''"
  using getAudioMimeType_resolution
    [of "\<lparr>fieldname = ''audio'', originalname = ''Song.MP3'',
          mimetype = ''application/octet-stream'', filesize = 3, path = ''/tmp/a1''\<rparr>"]
  by (simp add: extname_Song_MP3 spec_extension_table_def)

lemma getAudioMimeType_examples:
  "getAudioMimeType \<lparr>fieldname = ''audio'', originalname = ''take.flac'',
      mimetype = [], filesize = 3, path = ''/tmp/a1''\<rparr> = ''audio/flac''
   \<and> getAudioMimeType \<lparr>fieldname = ''audio'', originalname = ''memo.M4A'',
      mimetype = [], filesize = 3, path = ''/tmp/a1''\<rparr> = ''audio/mp4''
   \<and> getAudioMimeType \<lparr>fieldname = ''audio'', originalname = ''notes'',
      mimetype = [], filesize = 3, path = ''/tmp/a1''\<rparr> = ''audio/wav''
   \<and> getAudioMimeType \<lparr>fieldname = ''audio'', originalname = ''voice.aac'',
      mimetype = ''application/octet-stream'', filesize = 3, path = ''/tmp/a1''\<rparr> = ''audio/wav''
   \<and> getAudioMimeType \<lparr>fieldname = ''audio'', originalname = ''clip.bin'',
      mimetype = ''audio/webm'', filesize = 3, path = ''/tmp/a1''\<rparr> = ''audio/webm''"
  by code_simp

section \<open>Properties of model resolution\<close>

text \<open>A key of the mapping resolves to its identifier.\<close>

lemma modelName_of_own_key:
  "map_of HF_MODELS k = Some v \<Longrightarrow> modelName_of (Some k) = Str v"
  by (auto simp add: modelName_of_def modelKey_of_def js_get_def HF_MODELS_def truthy_str_def
      split: if_splits)

text \<open>
  A key that is neither in the mapping nor a member of \<open>Object.prototype\<close> resolves to
  the identifier of the default key.
\<close>

lemma modelName_of_absent_key:
  "map_of HF_MODELS k = None \<Longrightarrow> k \<notin> set object_prototype_keys \<Longrightarrow>
   modelName_of (Some k) = js_get HF_MODELS ''whisper-large''"
  by (auto simp add: modelName_of_def modelKey_of_def js_get_def HF_MODELS_def truthy_str_def
      split: if_splits)

text \<open>
  C3. The claim is that every key absent from the mapping resolves to the identifier of
  the default key. The request \<open>?model=constructor\<close> shows the source doing otherwise:
  \<open>constructor\<close> is no key of \<open>HF_MODELS\<close>, yet \<open>HF_MODELS['constructor']\<close> reads the
  member inherited from \<open>Object.prototype\<close>, which is truthy, so the \<open>||\<close> fallback
  is not taken and the model name is not the default identifier.
\<close>

theorem modelName_of_inherited_key:
  "map_of HF_MODELS ''constructor'' = None
   \<and> modelName_of (Some ''constructor'') = Inherited ''constructor''
   \<and> js_get HF_MODELS ''whisper-large'' = Str ''openai/whisper-large-v3''
   \<and> modelName_of (Some ''constructor'') \<noteq> js_get HF_MODELS ''whisper-large''"
  by (simp add: modelName_of_def modelKey_of_def js_get_def HF_MODELS_def truthy_str_def
      object_prototype_keys_def)

text \<open>
  C10. An empty \<open>model\<close> parameter is treated as a missing one: the key that is looked
  up is never the empty string, both resolve to the identifier of the default key
  \<open>whisper-large\<close>, and the handler cannot tell the two requests apart.
\<close>

theorem modelName_of_empty_key:
  "modelKey_of q \<noteq> []
   \<and> modelKey_of (Some []) = ''whisper-large''
   \<and> modelKey_of None = ''whisper-large''
   \<and> modelName_of (Some []) = js_get HF_MODELS ''whisper-large''
   \<and> modelName_of None = js_get HF_MODELS ''whisper-large''
   \<and> js_get HF_MODELS ''whisper-large'' = Str ''openai/whisper-large-v3''
   \<and> transcribe e (req\<lparr>query_model := Some []\<rparr>) w
       = transcribe e (req\<lparr>query_model := None\<rparr>) w"
proof -
  have k: "modelKey_of q \<noteq> []"
    by (simp add: modelKey_of_def truthy_str_def split: option.splits)
  have d: "js_get HF_MODELS ''whisper-large'' = Str ''openai/whisper-large-v3''"
    by (simp add: js_get_def HF_MODELS_def)
  have n1: "modelName_of (Some []) = js_get HF_MODELS ''whisper-large''"
    by (simp add: modelName_of_def modelKey_of_def truthy_str_def d)
  have n2: "modelName_of None = js_get HF_MODELS ''whisper-large''"
    by (simp add: modelName_of_def modelKey_of_def d)
  have t: "transcribe e (req\<lparr>query_model := Some []\<rparr>) w
           = transcribe e (req\<lparr>query_model := None\<rparr>) w"
    by (simp add: transcribe_def Let_def n1 n2
        cong: option.case_cong sum.case_cong if_cong)
  show ?thesis using k d n1 n2 t by (simp add: modelKey_of_def truthy_str_def)
qed

section \<open>The paths of the handler\<close>

lemma transcribe_no_token:
  "req_file req = Some f \<Longrightarrow> \<not> token_configured e \<Longrightarrow>
   transcribe e req w =
     \<lparr>reply = error_reply 500 ''Server configuration error''
                (JStr ''HuggingFace API token not configured'') None None,
      world = w, calls = []\<rparr>"
  by (simp add: transcribe_def)

lemma transcribe_read_failed:
  "req_file req = Some f \<Longrightarrow> token_configured e \<Longrightarrow>
   readFileSync w (path f) = Inl err \<Longrightarrow>
   transcribe e req w = catch_block err (path f) w []"
  by (simp add: transcribe_def)

lemma transcribe_rejected:
  "req_file req = Some f \<Longrightarrow> token_configured e \<Longrightarrow>
   readFileSync w (path f) = Inr buf \<Longrightarrow>
   upstream e (build_call e f (modelName_of (query_model req)) buf) = Rejected err \<Longrightarrow>
   transcribe e req w
     = catch_block err (path f) w [build_call e f (modelName_of (query_model req)) buf]"
  by (simp add: transcribe_def Let_def)

lemma transcribe_unlink_failed:
  "req_file req = Some f \<Longrightarrow> token_configured e \<Longrightarrow>
   readFileSync w (path f) = Inr buf \<Longrightarrow>
   upstream e (build_call e f (modelName_of (query_model req)) buf) = Resolved data \<Longrightarrow>
   unlinkSync w (path f) = Inl err \<Longrightarrow>
   transcribe e req w
     = catch_block err (path f) w [build_call e f (modelName_of (query_model req)) buf]"
  by (simp add: transcribe_def Let_def)

lemma transcribe_success:
  "req_file req = Some f \<Longrightarrow> token_configured e \<Longrightarrow>
   readFileSync w (path f) = Inr buf \<Longrightarrow>
   upstream e (build_call e f (modelName_of (query_model req)) buf) = Resolved data \<Longrightarrow>
   unlinkSync w (path f) = Inr w' \<Longrightarrow>
   transcribe e req w =
     \<lparr>reply = \<lparr>http_status = 200,
               body = SuccessJson
                 \<lparr>success = True, transcription = data,
                  metadata = \<lparr>model = modelName_of (query_model req),
                              originalFilename = originalname f, fileSize = filesize f,
                              metadata_mimetype = mimetype f, processedAt = now e\<rparr>\<rparr>\<rparr>,
      world = w',
      calls = [build_call e f (modelName_of (query_model req)) buf]\<rparr>"
  by (simp add: transcribe_def Let_def)

lemma reply_catch_block: "reply (catch_block err p w made) = classify_error err"
  by (simp add: catch_block_def Let_def)

lemma calls_catch_block: "calls (catch_block err p w made) = made"
  by (simp add: catch_block_def Let_def)

lemma read_world0: "readFileSync world0 ''/tmp/a1'' = Inr [82, 73, 70, 70]"
  by (simp add: readFileSync_def world0_def)

lemma token_env0: "token_configured env0" "token_configured (rejecting err)"
  by (simp_all add: token_configured_def env0_def rejecting_def truthy_str_def)

lemma upstream_rejecting: "upstream (rejecting err) c = Rejected err"
  by (simp add: rejecting_def)

lemma path_file0: "path file0 = ''/tmp/a1''"
  by (simp add: file0_def)

section \<open>The missing-file guard\<close>

text \<open>
  C6. A request to \<open>POST /api/transcribe\<close> that carries no uploaded file is answered
  with HTTP 400 and an error body, makes no outbound call, and leaves the file system as
  it was.
\<close>

theorem no_file_guard:
  assumes "req_file req = None"
  shows "reply (transcribe e req w) =
           error_reply 400 ''No audio file uploaded''
             (JStr ''Please provide an audio file in the request'') None None
         \<and> http_status (reply (transcribe e req w)) = 400
         \<and> calls (transcribe e req w) = []
         \<and> world (transcribe e req w) = w
         \<and> post_transcribe e None (query_model req) w = transcribe e req w"
  using assms by (simp add: transcribe_def error_reply_def post_transcribe_def)

theorem no_file_guard_witness:
  "http_status (reply (transcribe env0
      \<lparr>req_file = None, query_model = Some ''whisper-large''\<rparr> world0)) = 400
   \<and> calls (transcribe env0
      \<lparr>req_file = None, query_model = Some ''whisper-large''\<rparr> world0) = []"
  using no_file_guard
    [of "\<lparr>req_file = None, query_model = Some ''whisper-large''\<rparr>" env0 world0]
  by (simp add: error_reply_def)

section \<open>Classification of failures\<close>

text \<open>
  C4. When the upstream answers the outbound call with an error status, the reply is
  chosen by that status alone: 401 gives HTTP 500 "Authentication failed"; 429 gives
  HTTP 429 "Rate limit exceeded" without \<open>retryAfter\<close>; 503 gives HTTP 503 "Model
  loading" with \<open>retryAfter\<close> 20; every other status gives HTTP 500 "Transcription
  failed" with the upstream's \<open>error\<close> detail when it has a truthy one (a fixed text
  otherwise) and the upstream status in \<open>status\<close>.
\<close>

theorem upstream_error_classification:
  assumes "req_file req = Some f" and "token_configured e"
    and "readFileSync w (path f) = Inr buf"
    and "upstream e (build_call e f (modelName_of (query_model req)) buf) = Rejected err"
    and "response err = Some (st, data)"
  shows "reply (transcribe e req w) =
     (if st = 401 then
        error_reply 500 ''Authentication failed''
          (JStr ''Invalid HuggingFace API token'') None None
      else if st = 429 then
        error_reply 429 ''Rate limit exceeded''
          (JStr ''Too many requests to HuggingFace API. Please try again later.'') None None
      else if st = 503 then
        error_reply 503 ''Model loading''
          (JStr ''The AI model is currently loading. Please try again in a few moments.'')
          None (Some 20)
      else
        error_reply 500 ''Transcription failed''
          (case optional_prop data ''error'' of
             Some d \<Rightarrow> if truthy d then d else JStr ''HuggingFace API error''
           | None \<Rightarrow> JStr ''HuggingFace API error'')
          (Some st) None)"
  using assms
  by (simp add: transcribe_rejected reply_catch_block classify_error_def)

theorem upstream_error_classification_witness:
  "reply (transcribe (rejecting loading_error)
            \<lparr>req_file = Some file0, query_model = None\<rparr> world0)
     = error_reply 503 ''Model loading''
         (JStr ''The AI model is currently loading. Please try again in a few moments.'')
         None (Some 20)
   \<and> reply (transcribe (rejecting not_found_error)
            \<lparr>req_file = Some file0, query_model = None\<rparr> world0)
     = error_reply 500 ''Transcription failed'' (JStr ''Model not found'') (Some 404) None"
  using
    upstream_error_classification
      [of "\<lparr>req_file = Some file0, query_model = None\<rparr>" file0
          "rejecting loading_error" world0 "[82, 73, 70, 70]" loading_error
          503 "JObj [(''error'', JStr ''Model is loading'')]"]
    upstream_error_classification
      [of "\<lparr>req_file = Some file0, query_model = None\<rparr>" file0
          "rejecting not_found_error" world0 "[82, 73, 70, 70]" not_found_error
          404 "JObj [(''error'', JStr ''Model not found'')]"]
  by (simp add: token_env0 read_world0 path_file0 upstream_rejecting loading_error_def
      not_found_error_def)

text \<open>
  C5. An error thrown inside the handler that carries no upstream response (the file
  could not be read, the outbound call failed before any answer, or the file could not
  be removed after a good answer) is answered with HTTP 408 "Request timeout" when its
  code is \<open>ECONNABORTED\<close>, which is how the client library reports that the 60-second
  timeout of the call passed, and with HTTP 500 "Internal server error" carrying the
  error's message otherwise. The call is configured with a timeout of 60000 ms.
\<close>

theorem local_failure_classification:
  assumes "req_file req = Some f" and "token_configured e"
    and "response err = None"
    and "readFileSync w (path f) = Inl err
         \<or> (\<exists>buf. readFileSync w (path f) = Inr buf
               \<and> upstream e (build_call e f (modelName_of (query_model req)) buf)
                   = Rejected err)
         \<or> (\<exists>buf data. readFileSync w (path f) = Inr buf
               \<and> upstream e (build_call e f (modelName_of (query_model req)) buf)
                   = Resolved data
               \<and> unlinkSync w (path f) = Inl err)"
  shows "reply (transcribe e req w) =
     (if code err = Some ''ECONNABORTED'' then
        error_reply 408 ''Request timeout''
          (JStr ''Transcription took too long. Please try with a shorter audio file.'')
          None None
      else error_reply 500 ''Internal server error'' (JStr (message err)) None None)
     \<and> timeout (build_call e f (modelName_of (query_model req)) bytes) = 60000"
  using assms
  by (auto simp add: transcribe_rejected transcribe_read_failed transcribe_unlink_failed
      reply_catch_block classify_error_def build_call_def)

theorem local_failure_classification_witness:
  "reply (transcribe (rejecting timeout_error)
            \<lparr>req_file = Some file0, query_model = None\<rparr> world0)
     = error_reply 408 ''Request timeout''
         (JStr ''Transcription took too long. Please try with a shorter audio file.'')
         None None
   \<and> reply (transcribe env0
            \<lparr>req_file = Some (file0\<lparr>path := ''/tmp/gone''\<rparr>), query_model = None\<rparr> world0)
     = error_reply 500 ''Internal server error''
         (JStr (''ENOENT: no such file or directory, open ''
                @ [CHR 0x27] @ ''/tmp/gone'' @ [CHR 0x27])) None None"
  using
    local_failure_classification
      [of "\<lparr>req_file = Some file0, query_model = None\<rparr>" file0
          "rejecting timeout_error" timeout_error world0]
    local_failure_classification
      [of "\<lparr>req_file = Some (file0\<lparr>path := ''/tmp/gone''\<rparr>), query_model = None\<rparr>"
          "file0\<lparr>path := ''/tmp/gone''\<rparr>" env0 "enoent ''open'' ''/tmp/gone''" world0]
  by (simp add: token_env0 read_world0 path_file0 upstream_rejecting timeout_error_def
      readFileSync_def world0_def enoent_def)

section \<open>Cleanup of the temporary file\<close>

text \<open>
  With a token configured and no fault on removing the file, the temporary file is gone
  after the handler on every path: a failed read, a failed call and a good answer.
\<close>

lemma cleanup_when_token_configured:
  assumes "req_file req = Some f" and "token_configured e"
    and "unlink_fault w (path f) = None"
  shows "contents (world (transcribe e req w)) (path f) = None"
proof (cases "readFileSync w (path f)")
  case (Inl err)
  then show ?thesis using assms
    by (auto simp add: transcribe_read_failed catch_block_def unlinkSync_def Let_def
        split: option.splits)
next
  case (Inr buf)
  then have "contents w (path f) \<noteq> None"
    by (auto simp add: readFileSync_def split: option.splits)
  then obtain w' where u: "unlinkSync w (path f) = Inr w'"
    and gone: "contents w' (path f) = None"
    using assms(3) by (auto simp add: unlinkSync_def)
  show ?thesis
  proof (cases "upstream e (build_call e f (modelName_of (query_model req)) buf)")
    case (Resolved data)
    then show ?thesis using assms Inr u gone by (simp add: transcribe_success)
  next
    case (Rejected err)
    then show ?thesis using assms Inr u gone
      by (simp add: transcribe_rejected catch_block_def)
  qed
qed

text \<open>
  On the success path \<open>fs.unlinkSync\<close> stands inside the \<open>try\<close> block without a
  guard of its own: when it throws, the \<open>catch\<close> block answers for the error and the
  transcription that was received is not sent.
\<close>

lemma deletion_failure_changes_reply:
  assumes "req_file req = Some f" and "token_configured e"
    and "readFileSync w (path f) = Inr buf"
    and "upstream e (build_call e f (modelName_of (query_model req)) buf) = Resolved data"
    and "unlinkSync w (path f) = Inl err"
  shows "reply (transcribe e req w) = classify_error err
         \<and> world (transcribe e req w) = w"
  using assms by (simp add: transcribe_unlink_failed catch_block_def)

text \<open>
  C1. The claim is that the temporary file is deleted on every exit path, the branch
  for a missing token included. On that branch the source returns before the \<open>try\<close>
  block is entered and never calls \<open>fs.unlinkSync\<close>: the reply is the HTTP 500
  configuration error, no outbound call is made, and the file system is exactly what
  intake left, so the temporary file is still there.
\<close>

theorem missing_token_leaves_temp_file:
  assumes "req_file req = Some f" and "\<not> token_configured e"
  shows "reply (transcribe e req w) =
           error_reply 500 ''Server configuration error''
             (JStr ''HuggingFace API token not configured'') None None
         \<and> calls (transcribe e req w) = []
         \<and> world (transcribe e req w) = w
         \<and> contents (world (transcribe e req w)) (path f) = contents w (path f)"
  using assms by (simp add: transcribe_no_token)

theorem missing_token_leaves_temp_file_witness:
  "http_status (reply (transcribe env_no_token
      \<lparr>req_file = Some file0, query_model = None\<rparr> world0)) = 500
   \<and> contents (world (transcribe env_no_token
      \<lparr>req_file = Some file0, query_model = None\<rparr> world0)) ''/tmp/a1''
       = Some [82, 73, 70, 70]"
  using missing_token_leaves_temp_file
    [of "\<lparr>req_file = Some file0, query_model = None\<rparr>" file0 env_no_token world0]
  by (simp add: token_configured_def env_no_token_def path_file0 error_reply_def world0_def)

section \<open>The intake filter\<close>

lemma toLowerChar_canonicalize: "toLowerChar (canonicalize c) = toLowerChar c"
  by (auto simp add: toLowerChar_def canonicalize_def of_char_of)

lemma canonicalize_toLowerChar: "canonicalize (toLowerChar c) = canonicalize c"
  by (auto simp add: toLowerChar_def canonicalize_def of_char_of)

lemma canonicalize_eq_iff:
  "(canonicalize c = canonicalize d) = (toLowerChar c = toLowerChar d)"
  by (metis toLowerChar_canonicalize canonicalize_toLowerChar)

lemma map_canonicalize_eq_iff:
  "(map canonicalize a = map canonicalize b) = (toLowerCase a = toLowerCase b)"
proof (induction a arbitrary: b)
  case Nil
  then show ?case by (auto simp add: toLowerCase_def)
next
  case (Cons x xs)
  then show ?case
    by (cases b) (auto simp add: toLowerCase_def canonicalize_eq_iff)
qed

lemma toLowerCase_alternatives:
  "alt \<in> set audio_alternatives \<Longrightarrow> toLowerCase alt = alt"
  by (auto simp add: audio_alternatives_def toLowerCase_def toLowerChar_def)

text \<open>The pattern matches at a position iff a dot and one of the five names end the input there.\<close>

lemma regex_at_iff:
  "regex_at s = (\<exists>ext. s = CHR ''.'' # ext \<and> toLowerCase ext \<in> set audio_alternatives)"
proof (cases s)
  case Nil
  then show ?thesis by simp
next
  case (Cons c rest)
  have "list_ex (\<lambda>alt. map canonicalize rest = map canonicalize alt) audio_alternatives
        = (toLowerCase rest \<in> set audio_alternatives)"
    using toLowerCase_alternatives
    by (auto simp add: list_ex_iff map_canonicalize_eq_iff)
  then show ?thesis using Cons by auto
qed

lemma regex_search_iff:
  "regex_search s = (\<exists>stem suffix. s = stem @ suffix \<and> regex_at suffix)"
proof (induction s)
  case Nil
  then show ?case by simp
next
  case (Cons c rest)
  show ?case
  proof
    assume "regex_search (c # rest)"
    then consider "regex_at (c # rest)" | "regex_search rest" by auto
    then show "\<exists>stem suffix. c # rest = stem @ suffix \<and> regex_at suffix"
    proof cases
      case 1
      then have "c # rest = [] @ (c # rest) \<and> regex_at (c # rest)" by simp
      then show ?thesis by blast
    next
      case 2
      then obtain stem suffix where "rest = stem @ suffix" "regex_at suffix"
        using Cons.IH by blast
      then have "c # rest = (c # stem) @ suffix \<and> regex_at suffix" by simp
      then show ?thesis by blast
    qed
  next
    assume "\<exists>stem suffix. c # rest = stem @ suffix \<and> regex_at suffix"
    then obtain stem suffix where s: "c # rest = stem @ suffix" and r: "regex_at suffix"
      by blast
    show "regex_search (c # rest)"
    proof (cases stem)
      case Nil
      then have "suffix = c # rest" using s by simp
      then show ?thesis using r by simp
    next
      case (Cons d stem')
      then have "rest = stem' @ suffix" using s by simp
      then have "regex_search rest" using r Cons.IH by blast
      then show ?thesis by simp
    qed
  qed
qed

lemma regex_search_extension:
  "regex_search s =
     (\<exists>stem ext. s = stem @ ''.'' @ ext
        \<and> toLowerCase ext \<in> {''mp3'', ''wav'', ''ogg'', ''m4a'', ''aac''})"
proof -
  have "set audio_alternatives = {''mp3'', ''wav'', ''ogg'', ''m4a'', ''aac''}"
    by (simp add: audio_alternatives_def)
  then show ?thesis
    by (simp add: regex_search_iff regex_at_iff) blast
qed

lemma startsWith_truthy: "startsWith s ''audio/'' \<Longrightarrow> truthy_str s"
  by (auto simp add: startsWith_def truthy_str_def)

lemma regex_search_truthy: "regex_search s \<Longrightarrow> truthy_str s"
  by (cases s) (auto simp add: truthy_str_def)

lemma fileFilter_Accept_iff:
  "(fileFilter f = Accept) =
     (startsWith (mimetype f) ''audio/'' \<or> fieldname f = ''audio''
      \<or> regex_search (originalname f))"
  using startsWith_truthy regex_search_truthy
  by (auto simp add: fileFilter_def)

lemma fileFilter_text_part:
  "fileFilter text_part = Reject (PlainError ''Only audio files are allowed'')"
  by code_simp

lemma fieldname_text_part: "fieldname text_part = ''document''"
  by (simp add: text_part_def)

text \<open>
  What the upload step of the route does with a file part: it hands the file to the
  handler iff the part has a filename, is in the field \<open>audio\<close> and is under the size
  limit. The filter is asked only for a part in the field \<open>audio\<close>, which it accepts.
\<close>

lemma upload_single_accepts_iff:
  "(upload_single ''audio'' f = Inr (Some f)) =
     (originalname f \<noteq> [] \<and> fieldname f = ''audio'' \<and> filesize f < fileSize_limit)"
  by (auto simp add: upload_single_def fileFilter_def)

text \<open>A part the upload step refuses is answered by the middleware and never relayed.\<close>

lemma refused_upload_never_relayed:
  assumes "upload_single ''audio'' f = Inl err"
  shows "post_transcribe e (Some f) q w = \<lparr>reply = errorMiddleware err, world = w, calls = []\<rparr>"
  using assms by (simp add: post_transcribe_def)

text \<open>
  A part in another field is refused by the upload step before the filter is asked, also
  when the filter would accept it: an \<open>audio/mpeg\<close> file \<open>a.mp3\<close> in the field
  \<open>file\<close> is answered with HTTP 500.
\<close>

lemma audio_in_other_field_refused:
  "fileFilter wrong_field_audio = Accept
   \<and> upload_single ''audio'' wrong_field_audio
       = Inl (MulterError ''LIMIT_UNEXPECTED_FILE'' ''Unexpected field'')
   \<and> reply (post_transcribe env0 (Some wrong_field_audio) None world0)
       = error_reply 500 ''Internal server error'' (JStr ''Unexpected field'') None None"
proof -
  have a: "fileFilter wrong_field_audio = Accept"
    by (simp add: fileFilter_def wrong_field_audio_def truthy_str_def startsWith_def)
  have b: "upload_single ''audio'' wrong_field_audio
             = Inl (MulterError ''LIMIT_UNEXPECTED_FILE'' ''Unexpected field'')"
    by (simp add: upload_single_def wrong_field_audio_def)
  show ?thesis
    using a b by (simp add: post_transcribe_def errorMiddleware_def)
qed

text \<open>
  C7. The claim is that a file which is not accepted is rejected at intake with a client
  error. The part \<open>notes.txt\<close> of type \<open>text/plain\<close> in the field \<open>document\<close> is
  refused by the filter and by the upload step of the route, and the route answers it
  with HTTP 500 "Internal server error", which is no status of the 4xx class; the
  filter's own error would be answered with HTTP 500 as well. No outbound call is made.
  The same middleware answers the upload error for an oversized file with HTTP 413.
\<close>

theorem refused_upload_is_server_error:
  "fileFilter text_part = Reject (PlainError ''Only audio files are allowed'')
   \<and> reply (post_transcribe env0 (Some text_part) None world0)
       = error_reply 500 ''Internal server error'' (JStr ''Unexpected field'') None None
   \<and> \<not> client_error (reply (post_transcribe env0 (Some text_part) None world0))
   \<and> calls (post_transcribe env0 (Some text_part) None world0) = []
   \<and> errorMiddleware (PlainError ''Only audio files are allowed'')
       = error_reply 500 ''Internal server error''
           (JStr ''Only audio files are allowed'') None None
   \<and> \<not> client_error (errorMiddleware (PlainError ''Only audio files are allowed''))
   \<and> http_status (errorMiddleware (MulterError ''LIMIT_FILE_SIZE'' ''File too large'')) = 413"
proof -
  have u: "upload_single ''audio'' text_part
             = Inl (MulterError ''LIMIT_UNEXPECTED_FILE'' ''Unexpected field'')"
    by (simp add: upload_single_def text_part_def)
  have r: "post_transcribe env0 (Some text_part) None world0
             = \<lparr>reply = error_reply 500 ''Internal server error''
                         (JStr ''Unexpected field'') None None,
                world = world0, calls = []\<rparr>"
    using u by (simp add: post_transcribe_def errorMiddleware_def)
  show ?thesis
    by (simp add: r fileFilter_text_part client_error_def errorMiddleware_def error_reply_def)
qed

text \<open>
  C9. A file in the field \<open>audio\<close> is accepted by the filter whatever its declared
  media type and filename are. The route binds the upload to that field, so the upload
  step never fails with the filter's error: when it fails, it is with multer's own error
  for a file in another field or for a file over the size limit.
\<close>

theorem audio_field_always_accepted:
  "(fieldname f = ''audio'' \<longrightarrow> fileFilter f = Accept)
   \<and> (\<forall>m. upload_single ''audio'' f \<noteq> Inl (PlainError m))
   \<and> (\<forall>err. upload_single ''audio'' f = Inl err \<longrightarrow>
         err = MulterError ''LIMIT_UNEXPECTED_FILE'' ''Unexpected field''
         \<or> err = MulterError ''LIMIT_FILE_SIZE'' ''File too large'')"
  by (auto simp add: fileFilter_def upload_single_def split: if_splits)

theorem audio_field_always_accepted_witness:
  "fieldname audio_field_part = ''audio''
   \<and> \<not> startsWith (mimetype audio_field_part) ''audio/''
   \<and> \<not> regex_search (originalname audio_field_part)
   \<and> fileFilter audio_field_part = Accept"
proof -
  have "\<not> regex_search (originalname audio_field_part)"
    by code_simp
  then show ?thesis
    using audio_field_always_accepted [of audio_field_part]
    by (simp add: audio_field_part_def startsWith_def)
qed

section \<open>The model listing\<close>

text \<open>
  The listing of the two keys of the mapping: each once and in the order of the mapping,
  with the identifier as name and the entry of the description table as description.
\<close>

lemma listModels_entries:
  "map key listModels = object_keys HF_MODELS
   \<and> distinct (map key listModels)
   \<and> map (\<lambda>m. (key m, name m)) listModels = map (\<lambda>(k, v). (k, Str v)) HF_MODELS
   \<and> (\<forall>m \<in> set listModels.
         (\<exists>d. description m = Str d \<and> d \<noteq> [])
         \<and> description m = Str (case map_of descriptions (key m) of
                                  Some d \<Rightarrow> d | None \<Rightarrow> ''Unknown model''))"
  by (simp add: listModels_def object_keys_def HF_MODELS_def getModelDescription_def
      js_get_def descriptions_def)

text \<open>
  The fallback of \<open>getModelDescription\<close>: a key that is no member name of
  \<open>Object.prototype\<close> gets its table entry, and "Unknown model" when the table has
  none, as the key \<open>whisper-tiny\<close> of the earlier mapping does.
\<close>

lemma getModelDescription_fallback:
  assumes "k \<notin> set object_prototype_keys"
  shows "getModelDescription k =
           Str (case map_of descriptions k of Some d \<Rightarrow> d | None \<Rightarrow> ''Unknown model'')"
proof (cases "map_of descriptions k")
  case None
  then show ?thesis using assms by (simp add: getModelDescription_def js_get_def)
next
  case (Some d)
  then have "d \<noteq> []" by (auto simp add: descriptions_def split: if_splits)
  then show ?thesis using Some by (simp add: getModelDescription_def js_get_def)
qed

lemma getModelDescription_whisper_tiny:
  "getModelDescription ''whisper-tiny'' = Str ''Unknown model''"
  by (simp add: getModelDescription_def js_get_def descriptions_def object_prototype_keys_def)


end
